theory Spec2Isabelle
  imports Complex_Main
begin

section \<open>Data model of \<open>store.ts\<close>\<close>

text \<open>
  The program keeps its state in four MongoDB collections: \<open>products\<close>, \<open>cart\<close>,
  \<open>orders\<close> and \<open>newRegister\<close>. A collection is modelled as the list of its documents in
  natural (insertion) order; \<open>findOne\<close>, \<open>updateOne\<close>, \<open>replaceOne\<close> and \<open>deleteOne\<close> act on
  the first document that matches the filter.

  An \<open>ObjectId\<close> is modelled as a natural number (its twelve bytes read as one number, so
  that the order of identities is the order of numbers). A price is a JavaScript number
  that the modelled functions only copy and compare; it is a rational here. A quantity is
  a JavaScript number holding an integer (\<open>askForQuantity\<close> accepts \<open>/^\d+$/\<close> only); it
  is an unbounded integer here, which is exact as long as the quantities and their sums
  stay below \<open>2^53\<close>. A digit string too long for a double, which \<open>parseInt\<close> reads as
  \<open>Infinity\<close>, is outside the model.

  Field \<open>_id\<close> of the source is written \<open>oid\<close>. Fields of different interfaces that share
  a name are told apart by the qualified name, as in \<open>Product.quantity\<close> and
  \<open>CartItem.quantity\<close>.
\<close>

type_synonym ObjectId = nat

record Product =
  oid :: ObjectId
  name :: string
  price :: rat
  quantity :: int
  seller_id :: string

record CartItem =
  productId :: ObjectId
  name :: string
  price :: rat
  quantity :: int

record User =
  oid :: ObjectId
  username :: string
  role :: string

text \<open>The address object built by \<open>placeOrder\<close> from the three answers.\<close>

record Address =
  doorNo :: string
  streetArea :: string
  cityPincode :: string

text \<open>
  The document \<open>placeOrder\<close> inserts into \<open>orders\<close>. \<open>orderDate\<close> is \<open>new Date()\<close>,
  taken as a parameter (a number of milliseconds).
\<close>

record Order =
  userId :: string
  items :: "CartItem list"
  orderDate :: nat
  paymentMethod :: string
  address :: Address

text \<open>
  A document of the \<open>cart\<close> collection. The program writes such documents only in
  \<open>addToCart\<close> and \<open>updateCartItem\<close>, always with an \<open>items\<close> array, so the field is a list.
\<close>

record CartDoc =
  userId :: string
  items :: "CartItem list"

record Store =
  products :: "Product list"
  cart :: "CartDoc list"
  orders :: "Order list"
  newRegister :: "User list"

section \<open>Collection operations\<close>

text \<open>\<open>products.findOne({ _id: i })\<close>\<close>

definition findProductById :: "Product list \<Rightarrow> ObjectId \<Rightarrow> Product option" where
  "findProductById ps i = find (\<lambda>p. Product.oid p = i) ps"

text \<open>\<open>products.updateOne({ _id: i }, { $inc: { quantity: d } })\<close>\<close>

fun incQuantity :: "ObjectId \<Rightarrow> int \<Rightarrow> Product list \<Rightarrow> Product list" where
  "incQuantity i d [] = []"
| "incQuantity i d (p # ps) =
     (if Product.oid p = i then p\<lparr>Product.quantity := Product.quantity p + d\<rparr> # ps
      else p # incQuantity i d ps)"

text \<open>\<open>cart.findOne({ userId: u })\<close>\<close>

definition findCart :: "CartDoc list \<Rightarrow> string \<Rightarrow> CartDoc option" where
  "findCart cs u = find (\<lambda>c. CartDoc.userId c = u) cs"

text \<open>
  \<open>$addToSet\<close>: the value is appended to the array unless an equal value is already in it.
\<close>

definition addToSet :: "'a list \<Rightarrow> 'a \<Rightarrow> 'a list" where
  "addToSet xs x = (if x \<in> set xs then xs else xs @ [x])"

text \<open>
  \<open>cart.updateOne({ userId: u }, { $addToSet: { items: it } }, { upsert: true })\<close>: the
  first document of the buyer is updated; when there is none, a document holding the one
  item is inserted.
\<close>

fun upsertAddToSet :: "string \<Rightarrow> CartItem \<Rightarrow> CartDoc list \<Rightarrow> CartDoc list" where
  "upsertAddToSet u it [] = [\<lparr>CartDoc.userId = u, items = [it]\<rparr>]"
| "upsertAddToSet u it (c # cs) =
     (if CartDoc.userId c = u then c\<lparr>CartDoc.items := addToSet (CartDoc.items c) it\<rparr> # cs
      else c # upsertAddToSet u it cs)"

text \<open>\<open>cart.replaceOne({ userId: u }, doc)\<close>\<close>

fun replaceOne :: "string \<Rightarrow> CartDoc \<Rightarrow> CartDoc list \<Rightarrow> CartDoc list" where
  "replaceOne u doc [] = []"
| "replaceOne u doc (c # cs) =
     (if CartDoc.userId c = u then doc # cs else c # replaceOne u doc cs)"

text \<open>\<open>cart.deleteOne({ userId: u })\<close>\<close>

fun deleteOne :: "string \<Rightarrow> CartDoc list \<Rightarrow> CartDoc list" where
  "deleteOne u [] = []"
| "deleteOne u (c # cs) = (if CartDoc.userId c = u then cs else c # deleteOne u cs)"

text \<open>\<open>Array.prototype.findIndex\<close>, with \<open>None\<close> for the result \<open>-1\<close>.\<close>

fun findIndex :: "('a \<Rightarrow> bool) \<Rightarrow> 'a list \<Rightarrow> nat option" where
  "findIndex P [] = None"
| "findIndex P (x # xs) =
     (if P x then Some 0 else map_option Suc (findIndex P xs))"

section \<open>The cart\<close>

text \<open>\<open>addToCart(userId, product, quantity)\<close>\<close>

definition addToCart :: "Store \<Rightarrow> string \<Rightarrow> Product \<Rightarrow> int \<Rightarrow> Store" where
  "addToCart s u product qty =
     (let cartItem = \<lparr>productId = Product.oid product, name = Product.name product,
                      price = Product.price product, quantity = qty\<rparr>
      in s\<lparr>cart := upsertAddToSet u cartItem (cart s)\<rparr>)"

text \<open>
  What \<open>updateCartItem\<close> prints: \<open>Cart not found for this user.\<close>, \<open>... removed from cart.\<close>,
  \<open>... quantity updated to ...\<close> or \<open>... not found in cart.\<close>
\<close>

datatype update_outcome = CartNotFound | Removed | QuantityUpdated | NotFoundInCart

text \<open>\<open>updateCartItem(userId, productName, newQuantity)\<close>\<close>

definition updateCartItem :: "Store \<Rightarrow> string \<Rightarrow> string \<Rightarrow> int \<Rightarrow> Store \<times> update_outcome" where
  "updateCartItem s u productName newQuantity =
     (case findCart (cart s) u of
        None \<Rightarrow> (s, CartNotFound)
      | Some userCart \<Rightarrow>
          if newQuantity \<le> 0 then
            (s\<lparr>cart := replaceOne u
                 (userCart\<lparr>CartDoc.items :=
                    filter (\<lambda>item. CartItem.name item \<noteq> productName) (CartDoc.items userCart)\<rparr>)
                 (cart s)\<rparr>,
             Removed)
          else
            (case findIndex (\<lambda>item. CartItem.name item = productName) (CartDoc.items userCart) of
               Some itemIndex \<Rightarrow>
                 (s\<lparr>cart := replaceOne u
                      (userCart\<lparr>CartDoc.items :=
                         (CartDoc.items userCart)
                           [itemIndex := (CartDoc.items userCart ! itemIndex)
                                           \<lparr>CartItem.quantity := newQuantity\<rparr>]\<rparr>)
                      (cart s)\<rparr>,
                  QuantityUpdated)
             | None \<Rightarrow> (s, NotFoundInCart)))"

section \<open>Checkout\<close>

text \<open>
  The errors thrown inside the \<open>try\<close> block of \<open>placeOrder\<close>: the two that the loop throws
  itself, each carrying the name of the cart line, and the error of a store call that
  fails.
\<close>

datatype order_error = ProductNotFound string | InsufficientStock string | StoreError

text \<open>
  What \<open>placeOrder\<close> prints: \<open>Your cart is empty. Cannot place order.\<close>, \<open>Order cancelled.\<close>,
  \<open>Order placed successfully!\<close> or \<open>Failed to place order: ...\<close>
\<close>

datatype order_outcome = EmptyCart | OrderCancelled | OrderPlaced | Failed order_error

text \<open>
  The loop \<open>for (const item of userCart.items)\<close>: look the product up, throw when it is
  missing or its stock is below the line's quantity, otherwise decrement its stock and go
  on. The result is the \<open>products\<close> collection as the loop leaves it, and the error thrown
  if any.
\<close>

fun updateQuantities :: "Product list \<Rightarrow> CartItem list \<Rightarrow> Product list \<times> order_error option" where
  "updateQuantities ps [] = (ps, None)"
| "updateQuantities ps (item # rest) =
     (case findProductById ps (productId item) of
        None \<Rightarrow> (ps, Some (ProductNotFound (CartItem.name item)))
      | Some product \<Rightarrow>
          if Product.quantity product < CartItem.quantity item
          then (ps, Some (InsufficientStock (CartItem.name item)))
          else updateQuantities (incQuantity (productId item) (- CartItem.quantity item) ps) rest)"

text \<open>
  Whether \<open>orders.insertOne\<close> and \<open>cart.deleteOne\<close> throw is decided by the store, outside
  the program; it is an input of the model. A call that throws changes nothing. The reads
  and the calls inside the loop are taken to succeed.
\<close>

record Faults =
  insertFails :: bool
  deleteFails :: bool

text \<open>
  \<open>placeOrder(userId)\<close>. The answers to its prompts are parameters: the address, and
  \<open>confirmed\<close>, which says that the answer to \<open>Confirm order?\<close> is \<open>yes\<close> in lower case.
\<close>

definition placeOrder ::
  "Store \<Rightarrow> string \<Rightarrow> Address \<Rightarrow> bool \<Rightarrow> Faults \<Rightarrow> nat \<Rightarrow> Store \<times> order_outcome" where
  "placeOrder s u addr confirmed flt now =
     (case findCart (cart s) u of
        None \<Rightarrow> (s, EmptyCart)
      | Some userCart \<Rightarrow>
          if CartDoc.items userCart = [] then (s, EmptyCart)
          else if \<not> confirmed then (s, OrderCancelled)
          else
            (case updateQuantities (products s) (CartDoc.items userCart) of
               (ps, Some e) \<Rightarrow> (s\<lparr>products := ps\<rparr>, Failed e)
             | (ps, None) \<Rightarrow>
                 if insertFails flt then (s\<lparr>products := ps\<rparr>, Failed StoreError)
                 else
                   let s1 = s\<lparr>products := ps,
                              orders := orders s @
                                [\<lparr>Order.userId = u, items = CartDoc.items userCart,
                                  orderDate = now, paymentMethod = ''Cash on Delivery'',
                                  address = addr\<rparr>]\<rparr>
                   in if deleteFails flt then (s1, Failed StoreError)
                      else (s1\<lparr>cart := deleteOne u (cart s)\<rparr>, OrderPlaced)))"

section \<open>Notions used to state the properties\<close>

text \<open>
  The two checks the loop of \<open>placeOrder\<close> makes on one cart line, against a given
  \<open>products\<close> collection: the error the loop throws at that line, or \<open>None\<close> when the line
  passes.
\<close>

definition checkLine :: "Product list \<Rightarrow> CartItem \<Rightarrow> order_error option" where
  "checkLine ps item =
     (case findProductById ps (productId item) of
        None \<Rightarrow> Some (ProductNotFound (CartItem.name item))
      | Some product \<Rightarrow>
          if Product.quantity product < CartItem.quantity item
          then Some (InsufficientStock (CartItem.name item))
          else None)"

text \<open>The decrements of the given cart lines, applied one after the other, unchecked.\<close>

definition decrementAll :: "CartItem list \<Rightarrow> Product list \<Rightarrow> Product list" where
  "decrementAll ls ps =
     foldl (\<lambda>acc item. incQuantity (productId item) (- CartItem.quantity item) acc) ps ls"

text \<open>The stock of the product with the given identity, when there is one.\<close>

definition stockOf :: "Product list \<Rightarrow> ObjectId \<Rightarrow> int option" where
  "stockOf ps i = map_option Product.quantity (findProductById ps i)"

text \<open>The buyer has no cart document, or one whose \<open>items\<close> array is empty.\<close>

definition cartEmptyOrAbsent :: "Store \<Rightarrow> string \<Rightarrow> bool" where
  "cartEmptyOrAbsent s u =
     (case findCart (cart s) u of None \<Rightarrow> True | Some c \<Rightarrow> CartDoc.items c = [])"

section \<open>Example data\<close>

text \<open>
  The products of the scenarios: \<open>P\<close> with stock 5 and price 10, \<open>Q\<close> with stock 2, both
  sold by \<open>sam\<close>; a store holding them and nothing else; a delivery address; a store
  whose calls all succeed.
\<close>

definition exP :: Product where
  "exP = \<lparr>Product.oid = 1, name = ''P'', price = 10, quantity = 5, seller_id = ''sam''\<rparr>"

definition exQ :: Product where
  "exQ = \<lparr>Product.oid = 2, name = ''Q'', price = 4, quantity = 2, seller_id = ''sam''\<rparr>"

definition exStore :: Store where
  "exStore = \<lparr>products = [exP, exQ], cart = [], orders = [],
              newRegister = [\<lparr>User.oid = 7, username = ''sam'', role = ''seller''\<rparr>]\<rparr>"

definition exAddress :: Address where
  "exAddress = \<lparr>doorNo = ''12'', streetArea = ''Main Road'', cityPincode = ''Pune, 411001''\<rparr>"

definition noFaults :: Faults where
  "noFaults = \<lparr>insertFails = False, deleteFails = False\<rparr>"

definition lineP :: "int \<Rightarrow> CartItem" where
  "lineP q = \<lparr>productId = 1, name = ''P'', price = 10, quantity = q\<rparr>"

definition lineQ :: "int \<Rightarrow> CartItem" where
  "lineQ q = \<lparr>productId = 2, name = ''Q'', price = 4, quantity = q\<rparr>"

text \<open>The example store with a cart of the given lines for buyer \<open>u\<close>.\<close>

definition exStoreWithCart :: "CartItem list \<Rightarrow> Store" where
  "exStoreWithCart ls = exStore\<lparr>cart := [\<lparr>CartDoc.userId = ''u'', items = ls\<rparr>]\<rparr>"

text \<open>A second product that is also named \<open>P\<close>, as a cart line.\<close>

definition lineP2 :: CartItem where
  "lineP2 = \<lparr>productId = 9, name = ''P'', price = 12, quantity = 1\<rparr>"

text \<open>A cart line for a product that is not in the \<open>products\<close> collection.\<close>

definition lineR :: "int \<Rightarrow> CartItem" where
  "lineR q = \<lparr>productId = 5, name = ''R'', price = 1, quantity = q\<rparr>"

text \<open>A store whose \<open>orders.insertOne\<close> throws.\<close>

definition failingInsert :: Faults where
  "failingInsert = \<lparr>insertFails = True, deleteFails = False\<rparr>"

text \<open>Product \<open>P\<close> after its seller changed its name and price.\<close>

definition exPRepriced :: Product where
  "exPRepriced = \<lparr>Product.oid = 1, name = ''P deluxe'', price = 99, quantity = 5,
                  seller_id = ''sam''\<rparr>"

section \<open>Facts about the collection operations\<close>

lemma findCart_userId: "findCart cs u = Some c \<Longrightarrow> CartDoc.userId c = u"
  by (induction cs) (auto simp: findCart_def split: if_splits)

lemma findCart_upsertAddToSet:
  "findCart (upsertAddToSet u it cs) u =
     Some (case findCart cs u of
             None \<Rightarrow> \<lparr>CartDoc.userId = u, items = [it]\<rparr>
           | Some c \<Rightarrow> c\<lparr>CartDoc.items := addToSet (CartDoc.items c) it\<rparr>)"
  by (induction cs) (simp_all add: findCart_def)

lemma findCart_replaceOne:
  "findCart cs u = Some c \<Longrightarrow> CartDoc.userId d = u \<Longrightarrow> findCart (replaceOne u d cs) u = Some d"
  by (induction cs) (auto simp: findCart_def split: if_splits)

lemma replaceOne_found_doc: "findCart cs u = Some c \<Longrightarrow> replaceOne u c cs = cs"
  by (induction cs) (auto simp: findCart_def split: if_splits)

lemma findProductById_incQuantity:
  "findProductById (incQuantity i d ps) j =
     (if i = j
      then map_option (\<lambda>p. p\<lparr>Product.quantity := Product.quantity p + d\<rparr>) (findProductById ps j)
      else findProductById ps j)"
  by (induction ps) (auto simp: findProductById_def)

lemma upsertAddToSet_absorb:
  "upsertAddToSet u it (upsertAddToSet u it cs) = upsertAddToSet u it cs"
  by (induction cs) (simp_all add: addToSet_def)

lemma findIndex_None: "findIndex P xs = None \<longleftrightarrow> (\<forall>x\<in>set xs. \<not> P x)"
  by (induction xs) auto

lemma findIndex_Some:
  "findIndex P xs = Some i \<Longrightarrow>
     \<exists>pre l post. xs = pre @ l # post \<and> length pre = i \<and> P l \<and> (\<forall>x\<in>set pre. \<not> P x)"
proof (induction xs arbitrary: i)
  case Nil
  then show ?case by simp
next
  case (Cons x xs)
  show ?case
  proof (cases "P x")
    case True
    with Cons.prems have "i = 0" by simp
    with True have "x # xs = [] @ x # xs \<and> length ([]::'a list) = i \<and> P x \<and> (\<forall>y\<in>set []. \<not> P y)"
      by simp
    then show ?thesis by blast
  next
    case False
    with Cons.prems obtain j where j: "findIndex P xs = Some j" and i: "i = Suc j"
      by auto
    from Cons.IH [OF j] obtain pre l post where
      "xs = pre @ l # post" "length pre = j" "P l" "\<forall>y\<in>set pre. \<not> P y" by blast
    with False i have "x # xs = (x # pre) @ l # post \<and> length (x # pre) = i \<and> P l
        \<and> (\<forall>y\<in>set (x # pre). \<not> P y)" by simp
    then show ?thesis by blast
  qed
qed

lemma update_at_split: "length pre = i \<Longrightarrow> (pre @ l # post)[i := v] = pre @ v # post"
  by (induction pre arbitrary: i) auto

lemma nth_at_split: "length pre = i \<Longrightarrow> (pre @ l # post) ! i = l"
  by (induction pre arbitrary: i) auto

section \<open>Facts about the loop of \<open>placeOrder\<close>\<close>

lemma updateQuantities_Cons:
  "updateQuantities ps (item # rest) =
     (case checkLine ps item of
        Some e \<Rightarrow> (ps, Some e)
      | None \<Rightarrow> updateQuantities (incQuantity (productId item) (- CartItem.quantity item) ps) rest)"
  by (simp add: checkLine_def split: option.splits)

lemma decrementAll_Nil: "decrementAll [] ps = ps"
  by (simp add: decrementAll_def)

lemma decrementAll_Cons:
  "decrementAll (item # rest) ps =
     decrementAll rest (incQuantity (productId item) (- CartItem.quantity item) ps)"
  by (simp add: decrementAll_def)

lemma updateQuantities_passes:
  "updateQuantities ps ls = (ps', None) \<Longrightarrow> ps' = decrementAll ls ps"
proof (induction ls arbitrary: ps)
  case Nil
  then show ?case by (simp add: decrementAll_Nil)
next
  case (Cons item rest)
  from Cons.prems have "checkLine ps item = None"
    by (auto simp: updateQuantities_Cons simp del: updateQuantities.simps split: option.splits)
  with Cons.prems have
    "updateQuantities (incQuantity (productId item) (- CartItem.quantity item) ps) rest = (ps', None)"
    by (simp add: updateQuantities_Cons del: updateQuantities.simps)
  from Cons.IH [OF this] show ?case by (simp add: decrementAll_Cons)
qed

lemma updateQuantities_first_failure:
  "updateQuantities ps ls = (ps', Some e) \<Longrightarrow>
     \<exists>pre bad post. ls = pre @ bad # post \<and> updateQuantities ps pre = (ps', None)
        \<and> checkLine ps' bad = Some e"
proof (induction ls arbitrary: ps)
  case Nil
  then show ?case by simp
next
  case (Cons item rest)
  show ?case
  proof (cases "checkLine ps item")
    case (Some e')
    with Cons.prems have "ps' = ps" "e' = e"
      by (simp_all add: updateQuantities_Cons del: updateQuantities.simps)
    with Some have "item # rest = [] @ item # rest \<and> updateQuantities ps [] = (ps', None)
        \<and> checkLine ps' item = Some e" by simp
    then show ?thesis by blast
  next
    case None
    let ?ps1 = "incQuantity (productId item) (- CartItem.quantity item) ps"
    from None Cons.prems have "updateQuantities ?ps1 rest = (ps', Some e)"
      by (simp add: updateQuantities_Cons del: updateQuantities.simps)
    from Cons.IH [OF this] obtain pre bad post where
      d: "rest = pre @ bad # post" and p: "updateQuantities ?ps1 pre = (ps', None)"
      and c: "checkLine ps' bad = Some e" by blast
    from None p have "updateQuantities ps (item # pre) = (ps', None)"
      by (simp add: updateQuantities_Cons del: updateQuantities.simps)
    with d c have "item # rest = (item # pre) @ bad # post
        \<and> updateQuantities ps (item # pre) = (ps', None) \<and> checkLine ps' bad = Some e"
      by simp
    then show ?thesis by blast
  qed
qed

lemma updateQuantities_prefix_failure:
  "updateQuantities ps pre = (ps', None) \<Longrightarrow> checkLine ps' bad = Some e \<Longrightarrow>
     updateQuantities ps (pre @ bad # post) = (ps', Some e)"
proof (induction pre arbitrary: ps)
  case Nil
  then have "ps' = ps" by simp
  with Nil show ?case by (simp add: updateQuantities_Cons del: updateQuantities.simps)
next
  case (Cons item rest)
  from Cons.prems(1) have n: "checkLine ps item = None"
    by (auto simp: updateQuantities_Cons simp del: updateQuantities.simps split: option.splits)
  with Cons.prems(1) have
    "updateQuantities (incQuantity (productId item) (- CartItem.quantity item) ps) rest = (ps', None)"
    by (simp add: updateQuantities_Cons del: updateQuantities.simps)
  from Cons.IH [OF this Cons.prems(2)] n show ?case
    by (simp add: updateQuantities_Cons del: updateQuantities.simps)
qed

lemma checkLine_incQuantity_fails:
  assumes "checkLine ps item = Some e" and "d \<le> 0"
  shows "checkLine (incQuantity i d ps) item = Some e"
  using assms
  by (auto simp: checkLine_def findProductById_incQuantity split: option.splits if_splits)

lemma checkLine_decrementAll_fails:
  "checkLine ps item = Some e \<Longrightarrow> \<forall>l\<in>set ls. 0 \<le> CartItem.quantity l \<Longrightarrow>
     checkLine (decrementAll ls ps) item = Some e"
proof (induction ls arbitrary: ps)
  case Nil
  then show ?case by (simp add: decrementAll_Nil)
next
  case (Cons l ls)
  from Cons.prems have "checkLine (incQuantity (productId l) (- CartItem.quantity l) ps) item = Some e"
    by (simp add: checkLine_incQuantity_fails)
  with Cons.IH Cons.prems(2) show ?case by (simp add: decrementAll_Cons)
qed

lemma updateQuantities_total:
  "\<exists>ps' r. updateQuantities ps ls = (ps', r)"
  by (cases "updateQuantities ps ls") simp

lemma updateQuantities_fails_when_deficient:
  assumes "\<exists>item\<in>set ls. checkLine ps item \<noteq> None" and "\<forall>l\<in>set ls. 0 \<le> CartItem.quantity l"
  shows "snd (updateQuantities ps ls) \<noteq> None"
proof
  assume n: "snd (updateQuantities ps ls) = None"
  then have u: "updateQuantities ps ls = (fst (updateQuantities ps ls), None)"
    by (simp add: prod_eq_iff)
  from assms(1) obtain item e where m: "item \<in> set ls" and e: "checkLine ps item = Some e"
    by auto
  from m obtain pre post where sp: "ls = pre @ item # post" by (auto simp: in_set_conv_decomp)
  obtain ps1 r1 where p1: "updateQuantities ps pre = (ps1, r1)"
    using updateQuantities_total by blast
  show False
  proof (cases r1)
    case None
    with p1 have ps1: "ps1 = decrementAll pre ps" by (simp add: updateQuantities_passes)
    from assms(2) sp have "\<forall>l\<in>set pre. 0 \<le> CartItem.quantity l" by simp
    from checkLine_decrementAll_fails [OF e this] ps1 have "checkLine ps1 item = Some e" by simp
    from updateQuantities_prefix_failure [OF p1 [unfolded None] this, of post] sp n
    show False by simp
  next
    case (Some e1)
    from updateQuantities_first_failure [OF p1 [unfolded Some]] obtain pre1 bad post1 where
      "pre = pre1 @ bad # post1" "updateQuantities ps pre1 = (ps1, None)" "checkLine ps1 bad = Some e1"
      by blast
    with sp updateQuantities_prefix_failure [of ps pre1 ps1 bad e1 "post1 @ item # post"] n
    show False by simp
  qed
qed

lemma findProductById_decrementAll_other:
  "i \<notin> productId ` set ls \<Longrightarrow> findProductById (decrementAll ls ps) i = findProductById ps i"
  by (induction ls arbitrary: ps) (auto simp: decrementAll_Nil decrementAll_Cons findProductById_incQuantity)

lemma placeOrder_loop_failure:
  assumes "findCart (cart s) u = Some c" and "confirmed"
    and "updateQuantities (products s) (CartDoc.items c) = (ps, Some e)"
  shows "placeOrder s u addr confirmed flt now = (s\<lparr>products := ps\<rparr>, Failed e)"
proof -
  from assms(3) have "CartDoc.items c \<noteq> []" by auto
  with assms show ?thesis by (simp add: placeOrder_def)
qed

lemma addToCart_line_in_cart:
  "\<exists>c. findCart (cart (addToCart s u p q)) u = Some c
      \<and> \<lparr>productId = Product.oid p, name = Product.name p, price = Product.price p,
          quantity = q\<rparr> \<in> set (CartDoc.items c)"
  by (simp add: addToCart_def findCart_upsertAddToSet addToSet_def split: option.splits)

lemmas ex_defs = exStoreWithCart_def exStore_def exP_def exQ_def lineP_def lineQ_def
  exAddress_def noFaults_def findCart_def findProductById_def

section \<open>Properties of the cart\<close>

text \<open>
  Claim C2, as the code has it. \<open>addToCart\<close> does not merge by product identity. For every
  cart document of the buyer, \<open>addToCart\<close> leaves the lines already present as they are
  and appends a separate line, carrying the product's identity, name and price and the
  quantity given, unless a line equal to it in all four fields is already in the cart, in
  which case the cart is unchanged.
\<close>

theorem addToCart_appends_unless_identical:
  assumes "findCart (cart s) u = Some c"
  shows "\<exists>c'. findCart (cart (addToCart s u p q2)) u = Some c'
     \<and> CartDoc.userId c' = u
     \<and> CartDoc.items c' =
         (if \<lparr>productId = Product.oid p, name = Product.name p, price = Product.price p,
               quantity = q2\<rparr> \<in> set (CartDoc.items c)
          then CartDoc.items c
          else CartDoc.items c @
                 [\<lparr>productId = Product.oid p, name = Product.name p, price = Product.price p,
                   quantity = q2\<rparr>])"
  using assms findCart_userId [OF assms]
  by (simp add: addToCart_def findCart_upsertAddToSet addToSet_def)

text \<open>
  Scenario C at the example store: \<open>P\<close> added with quantity 3, then with quantity 5, gives
  a cart of two lines for \<open>P\<close>, with quantities 3 and 5.
\<close>

theorem addToCart_appends_unless_identical_witness:
  "findCart (cart (addToCart exStore ''u'' exP 3)) ''u''
     = Some \<lparr>CartDoc.userId = ''u'', items = [lineP 3]\<rparr>
   \<and> findCart (cart (addToCart (addToCart exStore ''u'' exP 3) ''u'' exP 5)) ''u''
     = Some \<lparr>CartDoc.userId = ''u'', items = [lineP 3, lineP 5]\<rparr>"
proof -
  have c: "findCart (cart (addToCart exStore ''u'' exP 3)) ''u''
      = Some \<lparr>CartDoc.userId = ''u'', items = [lineP 3]\<rparr>"
    by (simp add: addToCart_def exStore_def exP_def lineP_def findCart_def)
  from addToCart_appends_unless_identical [OF c, of exP 5] c show ?thesis
    by (auto simp: exP_def lineP_def)
qed

text \<open>
  Claim C2 as stated fails on Scenario C: the cart does not end with one line for \<open>P\<close> of
  quantity 8.
\<close>

theorem addToCart_no_merge_counterexample:
  "cart (addToCart (addToCart exStore ''u'' exP 3) ''u'' exP 5)
     = [\<lparr>CartDoc.userId = ''u'', items = [lineP 3, lineP 5]\<rparr>]
   \<and> cart (addToCart (addToCart exStore ''u'' exP 3) ''u'' exP 5)
     \<noteq> [\<lparr>CartDoc.userId = ''u'', items = [lineP 8]\<rparr>]"
  by (simp add: addToCart_def exStore_def exP_def lineP_def addToSet_def)

text \<open>
  Claim C9. Adding the exact same cart line twice is absorbed: for every store, a second
  call of \<open>addToCart\<close> for the same buyer with a product of the same identity, name and
  price and with the same quantity leaves the store equal to the store after the first
  call.
\<close>

theorem addToCart_same_line_twice:
  assumes "Product.oid p2 = Product.oid p1" and "Product.name p2 = Product.name p1"
    and "Product.price p2 = Product.price p1"
  shows "addToCart (addToCart s u p1 qty) u p2 qty = addToCart s u p1 qty"
  using assms by (simp add: addToCart_def upsertAddToSet_absorb)

text \<open>
  At the example store: \<open>P\<close> added twice with quantity 3, its stock having changed in
  between, leaves the one line.
\<close>

theorem addToCart_same_line_twice_witness:
  "Product.oid (exP\<lparr>Product.quantity := 4\<rparr>) = Product.oid exP
   \<and> Product.name (exP\<lparr>Product.quantity := 4\<rparr>) = Product.name exP
   \<and> Product.price (exP\<lparr>Product.quantity := 4\<rparr>) = Product.price exP
   \<and> addToCart (addToCart exStore ''u'' exP 3) ''u'' (exP\<lparr>Product.quantity := 4\<rparr>) 3
       = addToCart exStore ''u'' exP 3
   \<and> cart (addToCart exStore ''u'' exP 3) = [\<lparr>CartDoc.userId = ''u'', items = [lineP 3]\<rparr>]"
proof -
  have a: "Product.oid (exP\<lparr>Product.quantity := 4\<rparr>) = Product.oid exP" by simp
  have b: "Product.name (exP\<lparr>Product.quantity := 4\<rparr>) = Product.name exP" by simp
  have c: "Product.price (exP\<lparr>Product.quantity := 4\<rparr>) = Product.price exP" by simp
  have d: "cart (addToCart exStore ''u'' exP 3) = [\<lparr>CartDoc.userId = ''u'', items = [lineP 3]\<rparr>]"
    by (simp add: addToCart_def exStore_def exP_def lineP_def)
  from addToCart_same_line_twice [OF a b c, of exStore "''u''" 3] d show ?thesis by simp
qed

text \<open>
  Claim C10. The removal path of \<open>updateCartItem\<close> is keyed by product name and never
  reports an error: for every buyer with a cart document, \<open>updateCartItem\<close> with quantity 0
  reports the removal, leaves in the cart exactly the lines whose name differs from the
  given name, and leaves the store as it was when no line has that name.
\<close>

theorem updateCartItem_zero_removes_by_name:
  assumes "findCart (cart s) u = Some c"
  shows "snd (updateCartItem s u n 0) = Removed
     \<and> findCart (cart (fst (updateCartItem s u n 0))) u
         = Some (c\<lparr>CartDoc.items := filter (\<lambda>l. CartItem.name l \<noteq> n) (CartDoc.items c)\<rparr>)
     \<and> (n \<notin> CartItem.name ` set (CartDoc.items c) \<longrightarrow> fst (updateCartItem s u n 0) = s)"
proof -
  let ?d = "c\<lparr>CartDoc.items := filter (\<lambda>l. CartItem.name l \<noteq> n) (CartDoc.items c)\<rparr>"
  have r: "updateCartItem s u n 0 = (s\<lparr>cart := replaceOne u ?d (cart s)\<rparr>, Removed)"
    using assms by (simp add: updateCartItem_def)
  have uid: "CartDoc.userId ?d = u" using findCart_userId [OF assms] by simp
  have f: "findCart (replaceOne u ?d (cart s)) u = Some ?d"
    by (rule findCart_replaceOne [OF assms uid])
  have same: "fst (updateCartItem s u n 0) = s" if "n \<notin> CartItem.name ` set (CartDoc.items c)"
  proof -
    from that have "filter (\<lambda>l. CartItem.name l \<noteq> n) (CartDoc.items c) = CartDoc.items c"
      by (auto simp: filter_id_conv)
    then have "?d = c" by simp
    with replaceOne_found_doc [OF assms] r show ?thesis by simp
  qed
  from r f same show ?thesis by simp
qed

text \<open>
  At a cart with two lines of distinct products that are both named \<open>P\<close>: removing \<open>P\<close>
  removes both, and removing \<open>Z\<close>, which names no line, reports the removal and changes
  nothing.
\<close>

theorem updateCartItem_zero_removes_by_name_witness:
  "findCart (cart (exStoreWithCart [lineP 3, lineQ 1, lineP2])) ''u''
      = Some \<lparr>CartDoc.userId = ''u'', items = [lineP 3, lineQ 1, lineP2]\<rparr>
   \<and> productId (lineP 3) \<noteq> productId lineP2
   \<and> updateCartItem (exStoreWithCart [lineP 3, lineQ 1, lineP2]) ''u'' ''P'' 0
      = (exStoreWithCart [lineQ 1], Removed)
   \<and> ''Z'' \<notin> CartItem.name ` set [lineP 3, lineQ 1, lineP2]
   \<and> updateCartItem (exStoreWithCart [lineP 3, lineQ 1, lineP2]) ''u'' ''Z'' 0
      = (exStoreWithCart [lineP 3, lineQ 1, lineP2], Removed)"
proof -
  let ?s = "exStoreWithCart [lineP 3, lineQ 1, lineP2]"
  let ?c = "\<lparr>CartDoc.userId = ''u'', items = [lineP 3, lineQ 1, lineP2]\<rparr>"
  have c: "findCart (cart ?s) ''u'' = Some ?c"
    by (simp add: exStoreWithCart_def findCart_def)
  have z: "''Z'' \<notin> CartItem.name ` set (CartDoc.items ?c)"
    by (simp add: lineP_def lineQ_def lineP2_def)
  have p: "updateCartItem ?s ''u'' ''P'' 0 = (exStoreWithCart [lineQ 1], Removed)"
    by (simp add: updateCartItem_def exStoreWithCart_def findCart_def lineP_def lineQ_def lineP2_def)
  from updateCartItem_zero_removes_by_name [OF c, of "''Z''"] z
  have "updateCartItem ?s ''u'' ''Z'' 0 = (?s, Removed)"
    by (simp add: prod_eq_iff)
  with c z p show ?thesis by (simp add: lineP_def lineP2_def)
qed

text \<open>
  Claim C5, as the code has it. \<open>updateCartItem\<close> is keyed by product name. For every buyer
  with a cart document: a new quantity of 0 or less removes every line with that name and
  reports the removal, whether or not such a line exists; a positive new quantity
  replaces the quantity of the first line with that name, leaving every other line as it
  is, and when no line has that name it reports that the name is not in the cart and
  changes nothing.
\<close>

theorem updateCartItem_by_name:
  assumes "findCart (cart s) u = Some c"
  shows "(q \<le> 0 \<longrightarrow>
           (\<exists>s'. updateCartItem s u n q = (s', Removed)
              \<and> findCart (cart s') u
                  = Some (c\<lparr>CartDoc.items :=
                             filter (\<lambda>l. CartItem.name l \<noteq> n) (CartDoc.items c)\<rparr>)))
       \<and> (0 < q \<and> n \<notin> CartItem.name ` set (CartDoc.items c) \<longrightarrow>
            updateCartItem s u n q = (s, NotFoundInCart))
       \<and> (0 < q \<and> n \<in> CartItem.name ` set (CartDoc.items c) \<longrightarrow>
           (\<exists>s' pre l post. updateCartItem s u n q = (s', QuantityUpdated)
              \<and> CartDoc.items c = pre @ l # post \<and> CartItem.name l = n
              \<and> n \<notin> CartItem.name ` set pre
              \<and> findCart (cart s') u
                  = Some (c\<lparr>CartDoc.items := pre @ l\<lparr>CartItem.quantity := q\<rparr> # post\<rparr>)))"
proof (intro conjI impI)
  assume "q \<le> 0"
  let ?d = "c\<lparr>CartDoc.items := filter (\<lambda>l. CartItem.name l \<noteq> n) (CartDoc.items c)\<rparr>"
  have r: "updateCartItem s u n q = (s\<lparr>cart := replaceOne u ?d (cart s)\<rparr>, Removed)"
    using assms \<open>q \<le> 0\<close> by (simp add: updateCartItem_def)
  have uid: "CartDoc.userId ?d = u" using findCart_userId [OF assms] by simp
  have "findCart (cart (s\<lparr>cart := replaceOne u ?d (cart s)\<rparr>)) u = Some ?d"
    using findCart_replaceOne [OF assms uid] by simp
  with r show "\<exists>s'. updateCartItem s u n q = (s', Removed) \<and> findCart (cart s') u = Some ?d"
    by blast
next
  assume a: "0 < q \<and> n \<notin> CartItem.name ` set (CartDoc.items c)"
  then have "findIndex (\<lambda>item. CartItem.name item = n) (CartDoc.items c) = None"
    by (auto simp: findIndex_None)
  with a assms show "updateCartItem s u n q = (s, NotFoundInCart)"
    by (simp add: updateCartItem_def)
next
  assume a: "0 < q \<and> n \<in> CartItem.name ` set (CartDoc.items c)"
  then have "findIndex (\<lambda>item. CartItem.name item = n) (CartDoc.items c) \<noteq> None"
    by (auto simp: findIndex_None)
  then obtain i where i: "findIndex (\<lambda>item. CartItem.name item = n) (CartDoc.items c) = Some i"
    by blast
  from findIndex_Some [OF i] obtain pre l post where
    sp: "CartDoc.items c = pre @ l # post" and len: "length pre = i" and nl: "CartItem.name l = n"
    and np: "\<forall>x\<in>set pre. CartItem.name x \<noteq> n" by blast
  let ?d = "c\<lparr>CartDoc.items := pre @ l\<lparr>CartItem.quantity := q\<rparr> # post\<rparr>"
  have upd: "(CartDoc.items c)[i := (CartDoc.items c ! i)\<lparr>CartItem.quantity := q\<rparr>]
      = pre @ l\<lparr>CartItem.quantity := q\<rparr> # post"
    using sp len by (simp add: update_at_split nth_at_split)
  have r: "updateCartItem s u n q = (s\<lparr>cart := replaceOne u ?d (cart s)\<rparr>, QuantityUpdated)"
    using assms a i upd by (simp add: updateCartItem_def)
  have uid: "CartDoc.userId ?d = u" using findCart_userId [OF assms] by simp
  have f: "findCart (cart (s\<lparr>cart := replaceOne u ?d (cart s)\<rparr>)) u = Some ?d"
    using findCart_replaceOne [OF assms uid] by simp
  from np have "n \<notin> CartItem.name ` set pre" by auto
  with r sp nl f show "\<exists>s' pre l post. updateCartItem s u n q = (s', QuantityUpdated)
              \<and> CartDoc.items c = pre @ l # post \<and> CartItem.name l = n
              \<and> n \<notin> CartItem.name ` set pre
              \<and> findCart (cart s') u
                  = Some (c\<lparr>CartDoc.items := pre @ l\<lparr>CartItem.quantity := q\<rparr> # post\<rparr>)"
    by blast
qed

text \<open>
  At a cart with lines \<open>P\<close>, \<open>Q\<close> and a second product named \<open>P\<close>: removing \<open>Q\<close> is
  reported, updating \<open>Z\<close> reports that it is not in the cart, and updating \<open>P\<close> to 7 changes
  the first line named \<open>P\<close> only.
\<close>

theorem updateCartItem_by_name_witness:
  "findCart (cart (exStoreWithCart [lineP 3, lineQ 1, lineP2])) ''u''
      = Some \<lparr>CartDoc.userId = ''u'', items = [lineP 3, lineQ 1, lineP2]\<rparr>
   \<and> snd (updateCartItem (exStoreWithCart [lineP 3, lineQ 1, lineP2]) ''u'' ''Q'' 0) = Removed
   \<and> ''Z'' \<notin> CartItem.name ` set [lineP 3, lineQ 1, lineP2]
   \<and> updateCartItem (exStoreWithCart [lineP 3, lineQ 1, lineP2]) ''u'' ''Z'' 7
      = (exStoreWithCart [lineP 3, lineQ 1, lineP2], NotFoundInCart)
   \<and> ''P'' \<in> CartItem.name ` set [lineP 3, lineQ 1, lineP2]
   \<and> updateCartItem (exStoreWithCart [lineP 3, lineQ 1, lineP2]) ''u'' ''P'' 7
      = (exStoreWithCart [lineP 7, lineQ 1, lineP2], QuantityUpdated)"
proof -
  let ?s = "exStoreWithCart [lineP 3, lineQ 1, lineP2]"
  let ?c = "\<lparr>CartDoc.userId = ''u'', items = [lineP 3, lineQ 1, lineP2]\<rparr>"
  have c: "findCart (cart ?s) ''u'' = Some ?c" by (simp add: ex_defs)
  have z: "''Z'' \<notin> CartItem.name ` set (CartDoc.items ?c)" by (simp add: lineP2_def ex_defs)
  have p: "''P'' \<in> CartItem.name ` set (CartDoc.items ?c)" by (simp add: lineP2_def ex_defs)
  note t = updateCartItem_by_name [OF c]
  from t [of 0 "''Q''"] have r0: "snd (updateCartItem ?s ''u'' ''Q'' 0) = Removed" by auto
  from t [of 7 "''Z''"] z have r1: "updateCartItem ?s ''u'' ''Z'' 7 = (?s, NotFoundInCart)" by simp
  from t [of 7 "''P''"] p have "snd (updateCartItem ?s ''u'' ''P'' 7) = QuantityUpdated" by auto
  moreover have "fst (updateCartItem ?s ''u'' ''P'' 7) = exStoreWithCart [lineP 7, lineQ 1, lineP2]"
    by (simp add: updateCartItem_def lineP2_def ex_defs)
  ultimately have r2: "updateCartItem ?s ''u'' ''P'' 7
      = (exStoreWithCart [lineP 7, lineQ 1, lineP2], QuantityUpdated)"
    by (simp add: prod_eq_iff)
  from c z p r0 r1 r2 show ?thesis by simp
qed

text \<open>
  Claim C5 as stated fails: with new quantity 0 and no line for \<open>Q\<close> in the cart,
  \<open>updateCartItem\<close> reports a removal, not a missing line.
\<close>

theorem updateCartItem_remove_absent_counterexample:
  "findCart (cart (exStoreWithCart [lineP 3])) ''u''
     = Some \<lparr>CartDoc.userId = ''u'', items = [lineP 3]\<rparr>
   \<and> ''Q'' \<notin> CartItem.name ` set [lineP 3]
   \<and> updateCartItem (exStoreWithCart [lineP 3]) ''u'' ''Q'' 0 = (exStoreWithCart [lineP 3], Removed)
   \<and> snd (updateCartItem (exStoreWithCart [lineP 3]) ''u'' ''Q'' 0) \<noteq> NotFoundInCart"
  by (simp add: updateCartItem_def exStoreWithCart_def findCart_def lineP_def)

section \<open>Properties of checkout\<close>

text \<open>
  Claim C8. Empty-cart guard: for every buyer whose cart is empty or absent, \<open>placeOrder\<close>
  reports the empty cart and returns the store as it was: no stock is changed, no order is
  appended and no cart is modified, whatever the answers and whatever the store would do.
\<close>

theorem placeOrder_empty_cart:
  assumes "cartEmptyOrAbsent s u"
  shows "placeOrder s u addr confirmed flt now = (s, EmptyCart)"
  using assms
  by (auto simp add: placeOrder_def cartEmptyOrAbsent_def split: option.splits)

text \<open>At the example store: a buyer with no cart document, and one whose cart has no line.\<close>

theorem placeOrder_empty_cart_witness:
  "cartEmptyOrAbsent exStore ''u''
   \<and> placeOrder exStore ''u'' exAddress True noFaults 0 = (exStore, EmptyCart)
   \<and> cartEmptyOrAbsent (exStoreWithCart []) ''u''
   \<and> placeOrder (exStoreWithCart []) ''u'' exAddress True noFaults 0
       = (exStoreWithCart [], EmptyCart)"
proof -
  have a: "cartEmptyOrAbsent exStore ''u''"
    by (simp add: cartEmptyOrAbsent_def exStore_def findCart_def)
  have b: "cartEmptyOrAbsent (exStoreWithCart []) ''u''"
    by (simp add: cartEmptyOrAbsent_def exStoreWithCart_def findCart_def)
  from a b placeOrder_empty_cart [OF a] placeOrder_empty_cart [OF b] show ?thesis by simp
qed

text \<open>
  Claim C1, as the code has it. Checkout is not all-or-nothing. For every confirmed
  checkout of a cart with no negative quantity in which at least one line names a product
  that does not exist or whose stock is below the line's quantity, \<open>placeOrder\<close> fails at
  the first line of the cart that fails its check, the lines before it having passed; no
  order is appended and the cart is unchanged; the lines before the failing line have
  been decremented from the stock and stay so; the stock of every product that none of
  those lines names is as it was before the call.
\<close>

theorem placeOrder_not_all_or_nothing:
  assumes "findCart (cart s) u = Some c" and "confirmed"
    and "\<exists>item\<in>set (CartDoc.items c). checkLine (products s) item \<noteq> None"
    and "\<forall>l\<in>set (CartDoc.items c). 0 \<le> CartItem.quantity l"
  shows "\<exists>pre bad post e.
           CartDoc.items c = pre @ bad # post
         \<and> updateQuantities (products s) pre = (decrementAll pre (products s), None)
         \<and> checkLine (decrementAll pre (products s)) bad = Some e
         \<and> placeOrder s u addr confirmed flt now
             = (s\<lparr>products := decrementAll pre (products s)\<rparr>, Failed e)
         \<and> (\<forall>i. i \<notin> productId ` set pre \<longrightarrow>
               stockOf (decrementAll pre (products s)) i = stockOf (products s) i)"
proof -
  from updateQuantities_fails_when_deficient [OF assms(3) assms(4)]
  obtain ps e where r: "updateQuantities (products s) (CartDoc.items c) = (ps, Some e)"
    by (cases "updateQuantities (products s) (CartDoc.items c)") auto
  from updateQuantities_first_failure [OF r] obtain pre bad post where
    sp: "CartDoc.items c = pre @ bad # post" and p: "updateQuantities (products s) pre = (ps, None)"
    and b: "checkLine ps bad = Some e" by blast
  from p have ps: "ps = decrementAll pre (products s)" by (rule updateQuantities_passes)
  have o: "\<forall>i. i \<notin> productId ` set pre \<longrightarrow>
      stockOf (decrementAll pre (products s)) i = stockOf (products s) i"
    by (simp add: stockOf_def findProductById_decrementAll_other)
  from placeOrder_loop_failure [OF assms(1) assms(2) r, of addr flt now] sp p b ps o
  show ?thesis by blast
qed

text \<open>
  Scenario B at the example store: the cart holds 3 of \<open>P\<close> (stock 5) and 3 of \<open>Q\<close>
  (stock 2). \<open>placeOrder\<close> fails, the cart and the orders are as before, the stock of \<open>P\<close>
  is left at 2 and the stock of \<open>Q\<close> at 2.
\<close>

theorem placeOrder_not_all_or_nothing_witness:
  "findCart (cart (exStoreWithCart [lineP 3, lineQ 3])) ''u''
     = Some \<lparr>CartDoc.userId = ''u'', items = [lineP 3, lineQ 3]\<rparr>
   \<and> checkLine (products (exStoreWithCart [lineP 3, lineQ 3])) (lineQ 3) \<noteq> None
   \<and> placeOrder (exStoreWithCart [lineP 3, lineQ 3]) ''u'' exAddress True noFaults 0
        = ((exStoreWithCart [lineP 3, lineQ 3])
             \<lparr>products := [exP\<lparr>Product.quantity := 2\<rparr>, exQ]\<rparr>,
           Failed (InsufficientStock ''Q''))"
proof -
  let ?s = "exStoreWithCart [lineP 3, lineQ 3]"
  let ?c = "\<lparr>CartDoc.userId = ''u'', items = [lineP 3, lineQ 3]\<rparr>"
  have c: "findCart (cart ?s) ''u'' = Some ?c" by (simp add: ex_defs)
  have q: "checkLine (products ?s) (lineQ 3) \<noteq> None" by (simp add: checkLine_def ex_defs)
  then have d: "\<exists>item\<in>set (CartDoc.items ?c). checkLine (products ?s) item \<noteq> None" by simp
  have n: "\<forall>l\<in>set (CartDoc.items ?c). 0 \<le> CartItem.quantity l" by (simp add: ex_defs)
  have t: True by simp
  from placeOrder_not_all_or_nothing [OF c t d n, of exAddress noFaults 0]
  obtain pre e where
    r: "placeOrder ?s ''u'' exAddress True noFaults 0
          = (?s\<lparr>products := decrementAll pre (products ?s)\<rparr>, Failed e)" by blast
  have f: "fst (placeOrder ?s ''u'' exAddress True noFaults 0)
          = ?s\<lparr>products := [exP\<lparr>Product.quantity := 2\<rparr>, exQ]\<rparr>"
    by (simp add: placeOrder_def ex_defs)
  have "snd (placeOrder ?s ''u'' exAddress True noFaults 0) = Failed (InsufficientStock ''Q'')"
    by (simp add: placeOrder_def ex_defs)
  with r f have "placeOrder ?s ''u'' exAddress True noFaults 0
          = (?s\<lparr>products := [exP\<lparr>Product.quantity := 2\<rparr>, exQ]\<rparr>,
             Failed (InsufficientStock ''Q''))" by simp
  with c q show ?thesis by blast
qed

text \<open>
  Claim C1 as stated fails on Scenario B: \<open>placeOrder\<close> fails for \<open>Q\<close>, and the stock of
  \<open>P\<close>, 5 before the call, is 2 after it.
\<close>

theorem placeOrder_partial_decrement_counterexample:
  "stockOf (products (exStoreWithCart [lineP 3, lineQ 3])) 1 = Some 5
   \<and> checkLine (products (exStoreWithCart [lineP 3, lineQ 3])) (lineQ 3)
       = Some (InsufficientStock ''Q'')
   \<and> snd (placeOrder (exStoreWithCart [lineP 3, lineQ 3]) ''u'' exAddress True noFaults 0)
       = Failed (InsufficientStock ''Q'')
   \<and> stockOf (products (fst (placeOrder (exStoreWithCart [lineP 3, lineQ 3]) ''u'' exAddress
                                 True noFaults 0))) 1 = Some 2"
  by (simp add: placeOrder_def stockOf_def checkLine_def ex_defs)

text \<open>
  Claim C6, as the code has it. The loop checks the lines in the order of the cart's
  \<open>items\<close> array, each against the stock as the lines before it left it. When the lines
  \<open>pre\<close> pass and the next line \<open>bad\<close> fails its check, the error reported is the one of
  \<open>bad\<close>, and it carries the name of that line, whatever the lines after it would do.
\<close>

theorem placeOrder_first_failing_line_in_cart_order:
  assumes "findCart (cart s) u = Some c" and "confirmed"
    and "CartDoc.items c = pre @ bad # post"
    and "updateQuantities (products s) pre = (ps, None)"
    and "checkLine ps bad = Some e"
  shows "snd (placeOrder s u addr confirmed flt now) = Failed e
       \<and> (e = ProductNotFound (CartItem.name bad) \<or> e = InsufficientStock (CartItem.name bad))"
proof -
  from updateQuantities_prefix_failure [OF assms(4) assms(5), of post] assms(3)
  have "updateQuantities (products s) (CartDoc.items c) = (ps, Some e)" by simp
  from placeOrder_loop_failure [OF assms(1) assms(2) this, of addr flt now]
  have "snd (placeOrder s u addr confirmed flt now) = Failed e" by simp
  moreover from assms(5)
  have "e = ProductNotFound (CartItem.name bad) \<or> e = InsufficientStock (CartItem.name bad)"
    by (auto simp: checkLine_def split: option.splits if_splits)
  ultimately show ?thesis by simp
qed

text \<open>
  At a cart of \<open>Q\<close>, then a product \<open>R\<close> that does not exist, then 9 of \<open>P\<close> (stock 5):
  the line for \<open>Q\<close> passes, and the error reported is that \<open>R\<close> was not found.
\<close>

theorem placeOrder_first_failing_line_in_cart_order_witness:
  "findCart (cart (exStoreWithCart [lineQ 1, lineR 1, lineP 9])) ''u''
     = Some \<lparr>CartDoc.userId = ''u'', items = [lineQ 1, lineR 1, lineP 9]\<rparr>
   \<and> updateQuantities (products (exStoreWithCart [lineQ 1, lineR 1, lineP 9])) [lineQ 1]
       = ([exP, exQ\<lparr>Product.quantity := 1\<rparr>], None)
   \<and> checkLine [exP, exQ\<lparr>Product.quantity := 1\<rparr>] (lineR 1) = Some (ProductNotFound ''R'')
   \<and> snd (placeOrder (exStoreWithCart [lineQ 1, lineR 1, lineP 9]) ''u'' exAddress True noFaults 0)
       = Failed (ProductNotFound ''R'')"
proof -
  let ?s = "exStoreWithCart [lineQ 1, lineR 1, lineP 9]"
  let ?c = "\<lparr>CartDoc.userId = ''u'', items = [lineQ 1, lineR 1, lineP 9]\<rparr>"
  have c: "findCart (cart ?s) ''u'' = Some ?c" by (simp add: ex_defs)
  have t: True by simp
  have sp: "CartDoc.items ?c = [lineQ 1] @ lineR 1 # [lineP 9]" by simp
  have p: "updateQuantities (products ?s) [lineQ 1] = ([exP, exQ\<lparr>Product.quantity := 1\<rparr>], None)"
    by (simp add: ex_defs)
  have b: "checkLine [exP, exQ\<lparr>Product.quantity := 1\<rparr>] (lineR 1) = Some (ProductNotFound ''R'')"
    by (simp add: checkLine_def lineR_def ex_defs)
  from placeOrder_first_failing_line_in_cart_order [OF c t sp p b, of exAddress noFaults 0] c p b
  show ?thesis by simp
qed

text \<open>
  Claim C6 as stated fails: in a cart holding 3 of \<open>Q\<close> (identity 2) before 9 of \<open>P\<close>
  (identity 1), both lines are short of stock; the error reported is the one for \<open>Q\<close>,
  the first in the cart, not the one for \<open>P\<close>, the first by identity.
\<close>

theorem placeOrder_cart_order_counterexample:
  "productId (lineP 9) < productId (lineQ 3)
   \<and> checkLine (products (exStoreWithCart [lineQ 3, lineP 9])) (lineP 9)
       = Some (InsufficientStock ''P'')
   \<and> checkLine (products (exStoreWithCart [lineQ 3, lineP 9])) (lineQ 3)
       = Some (InsufficientStock ''Q'')
   \<and> snd (placeOrder (exStoreWithCart [lineQ 3, lineP 9]) ''u'' exAddress True noFaults 0)
       = Failed (InsufficientStock ''Q'')
   \<and> snd (placeOrder (exStoreWithCart [lineQ 3, lineP 9]) ''u'' exAddress True noFaults 0)
       \<noteq> Failed (InsufficientStock ''P'')"
  by (simp add: placeOrder_def checkLine_def ex_defs)

text \<open>
  Claim C3, as the code has it. There is no compensation after a failed insert. For every
  confirmed checkout of a non-empty cart in which the loop passed every line and
  \<open>orders.insertOne\<close> throws, \<open>placeOrder\<close> reports the failure, appends no order and
  leaves the cart intact, and the stock stays as the loop left it: decremented by every
  line of the cart.
\<close>

theorem placeOrder_no_release_after_failed_insert:
  assumes "findCart (cart s) u = Some c" and "CartDoc.items c \<noteq> []" and "confirmed"
    and "snd (updateQuantities (products s) (CartDoc.items c)) = None"
    and "insertFails flt"
  shows "placeOrder s u addr confirmed flt now
           = (s\<lparr>products := decrementAll (CartDoc.items c) (products s)\<rparr>, Failed StoreError)"
proof -
  from assms(4) obtain ps where r: "updateQuantities (products s) (CartDoc.items c) = (ps, None)"
    by (cases "updateQuantities (products s) (CartDoc.items c)") auto
  then have "ps = decrementAll (CartDoc.items c) (products s)" by (rule updateQuantities_passes)
  with assms r show ?thesis by (simp add: placeOrder_def)
qed

text \<open>
  At the example store with a cart of 3 of \<open>P\<close> and 2 of \<open>Q\<close> and an insert that throws:
  the stock of \<open>P\<close> is left at 2 and the stock of \<open>Q\<close> at 0.
\<close>

theorem placeOrder_no_release_after_failed_insert_witness:
  "findCart (cart (exStoreWithCart [lineP 3, lineQ 2])) ''u''
     = Some \<lparr>CartDoc.userId = ''u'', items = [lineP 3, lineQ 2]\<rparr>
   \<and> snd (updateQuantities (products (exStoreWithCart [lineP 3, lineQ 2])) [lineP 3, lineQ 2])
       = None
   \<and> insertFails failingInsert
   \<and> decrementAll [lineP 3, lineQ 2] (products (exStoreWithCart [lineP 3, lineQ 2]))
       = [exP\<lparr>Product.quantity := 2\<rparr>, exQ\<lparr>Product.quantity := 0\<rparr>]
   \<and> placeOrder (exStoreWithCart [lineP 3, lineQ 2]) ''u'' exAddress True failingInsert 0
       = ((exStoreWithCart [lineP 3, lineQ 2])
            \<lparr>products := [exP\<lparr>Product.quantity := 2\<rparr>, exQ\<lparr>Product.quantity := 0\<rparr>]\<rparr>,
          Failed StoreError)"
proof -
  let ?s = "exStoreWithCart [lineP 3, lineQ 2]"
  let ?c = "\<lparr>CartDoc.userId = ''u'', items = [lineP 3, lineQ 2]\<rparr>"
  have c: "findCart (cart ?s) ''u'' = Some ?c" by (simp add: ex_defs)
  have ne: "CartDoc.items ?c \<noteq> []" by simp
  have t: True by simp
  have p: "snd (updateQuantities (products ?s) (CartDoc.items ?c)) = None" by (simp add: ex_defs)
  have f: "insertFails failingInsert" by (simp add: failingInsert_def)
  have d: "decrementAll [lineP 3, lineQ 2] (products ?s)
       = [exP\<lparr>Product.quantity := 2\<rparr>, exQ\<lparr>Product.quantity := 0\<rparr>]"
    by (simp add: decrementAll_def ex_defs)
  from placeOrder_no_release_after_failed_insert [OF c ne t p f, of exAddress 0] c p f d
  show ?thesis by simp
qed

text \<open>
  Claim C3 as stated fails: with 3 of \<open>P\<close> in the cart and an insert that throws, the
  stock of \<open>P\<close>, 5 before the call, is 2 after it and not restored.
\<close>

theorem placeOrder_failed_insert_counterexample:
  "stockOf (products (exStoreWithCart [lineP 3])) 1 = Some 5
   \<and> snd (updateQuantities (products (exStoreWithCart [lineP 3])) [lineP 3]) = None
   \<and> snd (placeOrder (exStoreWithCart [lineP 3]) ''u'' exAddress True failingInsert 0)
       = Failed StoreError
   \<and> stockOf (products (fst (placeOrder (exStoreWithCart [lineP 3]) ''u'' exAddress True
                                 failingInsert 0))) 1 = Some 2"
  by (simp add: placeOrder_def stockOf_def failingInsert_def ex_defs)

text \<open>
  Claim C7. Snapshot fidelity: for every successful checkout, the lines of the order
  appended are exactly the lines of the buyer's cart, so each order line has the name and
  price of its cart line, whatever the \<open>products\<close> collection has become in the meantime;
  and when the cart was reached by adding a product, the line with the name and price
  that product had at that moment is among the order's lines.
\<close>

theorem order_lines_are_cart_snapshot:
  assumes "placeOrder (s\<lparr>products := ps\<rparr>) u addr confirmed flt now = (s', OrderPlaced)"
  shows "\<exists>c. findCart (cart s) u = Some c
       \<and> orders s' = orders s @
           [\<lparr>Order.userId = u, items = CartDoc.items c, orderDate = now,
             paymentMethod = ''Cash on Delivery'', address = addr\<rparr>]
       \<and> (\<forall>s0 p q. s = addToCart s0 u p q \<longrightarrow>
             \<lparr>productId = Product.oid p, name = Product.name p, price = Product.price p,
               quantity = q\<rparr> \<in> set (CartDoc.items c))"
proof -
  from assms obtain c where c: "findCart (cart s) u = Some c"
    and o: "orders s' = orders s @
           [\<lparr>Order.userId = u, items = CartDoc.items c, orderDate = now,
             paymentMethod = ''Cash on Delivery'', address = addr\<rparr>]"
    by (auto simp: placeOrder_def Let_def split: option.splits if_splits prod.splits)
  have "\<lparr>productId = Product.oid p, name = Product.name p, price = Product.price p,
               quantity = q\<rparr> \<in> set (CartDoc.items c)" if "s = addToCart s0 u p q" for s0 p q
    using addToCart_line_in_cart [of s0 u p q] c that by auto
  with c o show ?thesis by blast
qed

text \<open>
  At the example store: 3 of \<open>P\<close> are added at price 10, then \<open>P\<close> is renamed and
  repriced to 99; the order placed holds the line with the name \<open>P\<close> and the price 10.
\<close>

theorem order_lines_are_cart_snapshot_witness:
  "placeOrder ((addToCart exStore ''u'' exP 3)\<lparr>products := [exPRepriced, exQ]\<rparr>) ''u''
       exAddress True noFaults 0
     = (exStore\<lparr>products := [exPRepriced\<lparr>Product.quantity := 2\<rparr>, exQ],
                orders := [\<lparr>Order.userId = ''u'', items = [lineP 3], orderDate = 0,
                            paymentMethod = ''Cash on Delivery'', address = exAddress\<rparr>]\<rparr>,
        OrderPlaced)
   \<and> CartItem.name (lineP 3) = Product.name exP \<and> CartItem.price (lineP 3) = Product.price exP
   \<and> Product.name exPRepriced \<noteq> Product.name exP
   \<and> Product.price exPRepriced \<noteq> Product.price exP
   \<and> lineP 3 \<in> set (Order.items (last (orders (fst (placeOrder
        ((addToCart exStore ''u'' exP 3)\<lparr>products := [exPRepriced, exQ]\<rparr>) ''u''
        exAddress True noFaults 0)))))"
proof -
  let ?s = "addToCart exStore ''u'' exP 3"
  let ?s' = "exStore\<lparr>products := [exPRepriced\<lparr>Product.quantity := 2\<rparr>, exQ],
                orders := [\<lparr>Order.userId = ''u'', items = [lineP 3], orderDate = 0,
                            paymentMethod = ''Cash on Delivery'', address = exAddress\<rparr>]\<rparr>"
  have r: "placeOrder (?s\<lparr>products := [exPRepriced, exQ]\<rparr>) ''u'' exAddress True noFaults 0
      = (?s', OrderPlaced)"
    by (simp add: placeOrder_def addToCart_def exPRepriced_def ex_defs)
  from order_lines_are_cart_snapshot [OF r] obtain c where
    h: "findCart (cart ?s) ''u'' = Some c
       \<and> orders ?s' = orders ?s @
           [\<lparr>Order.userId = ''u'', items = CartDoc.items c, orderDate = 0,
             paymentMethod = ''Cash on Delivery'', address = exAddress\<rparr>]
       \<and> (\<forall>s0 p q. ?s = addToCart s0 ''u'' p q \<longrightarrow>
             \<lparr>productId = Product.oid p, name = Product.name p, price = Product.price p,
               quantity = q\<rparr> \<in> set (CartDoc.items c))" ..
  note o = h [THEN conjunct2, THEN conjunct1]
  from h have "\<lparr>productId = Product.oid exP, name = Product.name exP, price = Product.price exP,
               quantity = 3\<rparr> \<in> set (CartDoc.items c)"
    by blast
  with o have "\<lparr>productId = Product.oid exP, name = Product.name exP, price = Product.price exP,
               quantity = 3\<rparr> \<in> set (Order.items (last (orders ?s')))"
    by simp
  then have "lineP 3 \<in> set (Order.items (last (orders ?s')))"
    by (simp add: lineP_def exP_def)
  with r show ?thesis by (simp add: lineP_def exP_def exPRepriced_def)
qed

end
